theory Spec2Isabelle
  imports Main
begin

section \<open>Data model\<close>

text \<open>
  Go byte slices and strings are sequences of bytes; both are modelled as \<open>string\<close>.
  A Go \<open>map[string]string\<close> is either the nil map or an allocated map: \<open>None\<close> is
  nil, \<open>Some m\<close> an allocated map with contents \<open>m\<close>. Reading a nil map behaves like
  reading an empty one.
\<close>

type_synonym bytes = string

type_synonym gomap = "(string \<rightharpoonup> string) option"

text \<open>\<open>v, exists := m[k]\<close>: the lookup with presence flag, \<open>None\<close> when absent.\<close>

definition lookup :: "(string \<rightharpoonup> 'b) option \<Rightarrow> string \<Rightarrow> 'b option" where
  "lookup m k = (case m of None \<Rightarrow> None | Some f \<Rightarrow> f k)"

text \<open>\<open>m[k]\<close> on a \<open>map[string]string\<close>: the zero value \<open>""\<close> when absent.\<close>

definition value_at :: "gomap \<Rightarrow> string \<Rightarrow> string" where
  "value_at m k = (case lookup m k of None \<Rightarrow> [] | Some v \<Rightarrow> v)"

section \<open>utils.MergeMaps\<close>

text \<open>
  The loop \<open>for k, v := range src { if _, exists := dst[k]; !exists { dst[k] = v } }\<close>.
  The keys of a Go map are pairwise distinct, so every key of \<open>src\<close> is visited once and
  the iterations do not interfere: the resulting map is given key by key.
  \<open>range_fill\<close> is the same loop run over an explicit enumeration of the entries of
  \<open>src\<close>; \<open>range_fill_pointwise\<close> below shows that the result is the same for every
  enumeration.
\<close>

definition fill_absent :: "(string \<rightharpoonup> string) \<Rightarrow> (string \<rightharpoonup> string) \<Rightarrow> (string \<rightharpoonup> string)" where
  "fill_absent dst src = (\<lambda>k. case dst k of Some x \<Rightarrow> Some x | None \<Rightarrow> src k)"

fun range_fill :: "(string \<times> string) list \<Rightarrow> (string \<rightharpoonup> string) \<Rightarrow> (string \<rightharpoonup> string)" where
  "range_fill [] dst = dst"
| "range_fill ((k, v) # kvs) dst =
     range_fill kvs (case dst k of None \<Rightarrow> dst(k \<mapsto> v) | Some x \<Rightarrow> dst)"

definition MergeMaps :: "gomap \<Rightarrow> gomap \<Rightarrow> gomap" where
  "MergeMaps dst src =
     (case src of
        None \<Rightarrow> (case dst of None \<Rightarrow> Some Map.empty | Some d \<Rightarrow> Some d)
      | Some s \<Rightarrow>
          (let d = (case dst of None \<Rightarrow> Map.empty | Some d \<Rightarrow> d)
           in Some (fill_absent d s)))"

section \<open>Plugin capability taxonomy\<close>

record TypedName =
  Type :: string
  Name :: string

text \<open>
  The errors the code builds with \<open>fmt.Errorf\<close>, one constructor per message, with
  the values the message is formatted from. \<open>ExternalError\<close> stands for an error that a
  library routine or a plugin hands back.
\<close>

datatype error =
    NonSupportedInterface string
  | NoImplementation string
  | NoFactoryRegistered string
  | PluginTypeNotFound string
  | PluginNotFound string
  | IndexOutOfRange int
  | NotFoundInRegistry int
  | UnsupportedSharedMemoryType
  | EmptyMutatedBody TypedName
  | PluginNotRegistered string
  | FailedToCreateInstance string string error
  | FailedToRegisterInstance string string error
  | FailedToRegisterFactory error
  | FailedToCreateDefault error
  | ExternalError string

text \<open>
  Run-time panics of the Go runtime: a method call on a nil interface value, and a slice
  index out of range (index and length).
\<close>

datatype panic =
    NilDereference
  | IndexOutOfRangePanic int nat

datatype 'a result = Ok 'a | Err error | Panic panic

text \<open>
  The two shapes of the openai-go library that the chain caches. The code reads only
  their \<open>Model\<close> field.
\<close>

datatype CompletionNewParams = CompletionNewParams (completion_Model: string)

datatype ChatCompletionNewParams = ChatCompletionNewParams (chat_Model: string)

text \<open>
  The \<open>interface{}\<close> value that \<open>GetSharedMemory\<close> returns and \<open>Extract\<close>/\<open>Select\<close>
  receive: nil, one of the two shapes, or a value of any other dynamic type.
\<close>

datatype shared_memory =
    NilMemory
  | SharedCompletion CompletionNewParams
  | SharedChatCompletion ChatCompletionNewParams
  | OtherMemory

text \<open>
  A plugin instance (a non-nil \<open>BBRPlugin\<close> interface value). \<open>extractor\<close> is \<open>Some\<close> (and holds the method \<open>Extract\<close>)
  exactly when the instance implements \<open>MetadataExtractor\<close> (the type assertion
  \<open>plugin.(bbrplugins.MetadataExtractor)\<close> succeeds), \<open>selector\<close> likewise for the method \<open>Select\<close> of
  \<open>ModelSelector\<close>. A method either returns an error or its values.
\<close>

record BBRPlugin =
  typedName :: TypedName
  requiresFullParsing :: bool
  extractor :: "(bytes \<Rightarrow> string list \<Rightarrow> shared_memory \<Rightarrow> error + gomap) option"
  selector :: "(bytes \<Rightarrow> shared_memory \<Rightarrow> error + (gomap \<times> bytes)) option"

type_synonym PluginFactoryFunc = "unit \<Rightarrow> BBRPlugin"

definition ModelHeader :: string where
  "ModelHeader = ''X-Gateway-Model-Name''"

definition SupportedInterfaces :: "string \<rightharpoonup> string list" where
  "SupportedInterfaces = map_of
     [(''ModelSelector'', [''semantic-model-selector'']),
      (''GuardRail'', [''bad-words-blocker'', ''pid-disclosure-blocker'']),
      (''MetadataExtractor'', [''simple-model-extractor''])]"

section \<open>Plugin registry\<close>

text \<open>
  \<open>pluginsFactory\<close> is the constructor map; \<open>pluginInstances\<close> is the field \<open>plugins\<close>
  of the Go struct (renamed, the chain has a field of the same name). Both maps are
  allocated by \<open>NewPluginRegistry\<close>, the only constructor of the unexported struct.
  A mutating method returns the registry after the call and the error it returned.
\<close>

record pluginRegistry =
  pluginsFactory :: "string \<rightharpoonup> PluginFactoryFunc"
  pluginInstances :: "string \<rightharpoonup> BBRPlugin"

definition NewPluginRegistry :: pluginRegistry where
  "NewPluginRegistry = \<lparr>pluginsFactory = Map.empty, pluginInstances = Map.empty\<rparr>"

definition RegisterFactory ::
    "pluginRegistry \<Rightarrow> string \<Rightarrow> PluginFactoryFunc \<Rightarrow> pluginRegistry \<times> error option" where
  "RegisterFactory r typeKey factory =
     (case SupportedInterfaces typeKey of
        None \<Rightarrow> (r, Some (NonSupportedInterface typeKey))
      | Some implementations \<Rightarrow>
          (r\<lparr>pluginsFactory := (pluginsFactory r)(typeKey \<mapsto> factory)\<rparr>, None))"

definition RegisterPlugin ::
    "pluginRegistry \<Rightarrow> BBRPlugin \<Rightarrow> pluginRegistry \<times> error option" where
  "RegisterPlugin r plugin =
     (case SupportedInterfaces (Type (typedName plugin)) of
        None \<Rightarrow> (r, Some (NonSupportedInterface (Type (typedName plugin))))
      | Some implementations \<Rightarrow>
          if length implementations = 0 \<or> Name (typedName plugin) \<notin> set implementations
          then (r, Some (NoImplementation (Type (typedName plugin))))
          else (case pluginsFactory r (Type (typedName plugin)) of
                  None \<Rightarrow> (r, Some (NoFactoryRegistered (Type (typedName plugin))))
                | Some factory \<Rightarrow>
                    (r\<lparr>pluginInstances :=
                         (pluginInstances r)(Type (typedName plugin) \<mapsto> plugin)\<rparr>, None)))"

definition UnregisterPlugin :: "pluginRegistry \<Rightarrow> string \<Rightarrow> pluginRegistry \<times> error option" where
  "UnregisterPlugin r typeKey =
     (case pluginInstances r typeKey of
        Some plugin \<Rightarrow> (r\<lparr>pluginInstances := (pluginInstances r)(typeKey := None)\<rparr>, None)
      | None \<Rightarrow> (r, Some (PluginNotFound typeKey)))"

definition CreatePlugin :: "pluginRegistry \<Rightarrow> string \<Rightarrow> error + BBRPlugin" where
  "CreatePlugin r typeKey =
     (case pluginsFactory r typeKey of
        Some factory \<Rightarrow> Inr (factory ())
      | None \<Rightarrow> Inl (PluginNotRegistered typeKey))"

definition GetPlugins :: "pluginRegistry \<Rightarrow> (string \<rightharpoonup> BBRPlugin)" where
  "GetPlugins r = pluginInstances r"

text \<open>
  A pair of a type and a name is present in \<open>SupportedInterfaces\<close> when the type is a
  key of the table and the name is in the list under that key.
\<close>

definition supportedPair :: "string \<Rightarrow> string \<Rightarrow> bool" where
  "supportedPair t n =
     (case SupportedInterfaces t of
        None \<Rightarrow> False
      | Some implementations \<Rightarrow> n \<in> set implementations)"

definition ContainsPlugin :: "pluginRegistry \<Rightarrow> string \<Rightarrow> bool" where
  "ContainsPlugin r typeKey = (case pluginInstances r typeKey of None \<Rightarrow> False | Some p \<Rightarrow> True)"

section \<open>Plugins chain\<close>

text \<open>
  The routines of the libraries the code calls, taken as parameters:
  \<open>json_Unmarshal_Model\<close> is \<open>json.Unmarshal\<close> into a fresh
  \<open>struct { Model string `json:"model"` }\<close>, giving the error or the \<open>Model\<close> field;
  the two \<open>UnmarshalJSON\<close> methods of the openai-go shapes take the receiver's value
  before the call and the data, and give the receiver's value after the call and the error.
\<close>

record externals =
  json_Unmarshal_Model :: "bytes \<Rightarrow> error + string"
  completion_UnmarshalJSON :: "CompletionNewParams \<Rightarrow> bytes \<Rightarrow> CompletionNewParams \<times> error option"
  chat_UnmarshalJSON :: "ChatCompletionNewParams \<Rightarrow> bytes \<Rightarrow> ChatCompletionNewParams \<times> error option"

record pluginsChain =
  plugins :: "string list"
  sharedChatCompletion :: ChatCompletionNewParams
  sharedCompletion :: CompletionNewParams

definition NewPluginsChain :: pluginsChain where
  "NewPluginsChain =
     \<lparr>plugins = [], sharedChatCompletion = ChatCompletionNewParams [],
      sharedCompletion = CompletionNewParams []\<rparr>"

definition AddPlugin :: "pluginsChain \<Rightarrow> string \<Rightarrow> pluginRegistry \<Rightarrow> pluginsChain \<times> error option" where
  "AddPlugin pc typeKey r =
     (if \<not> ContainsPlugin r typeKey then (pc, Some (PluginTypeNotFound typeKey))
      else (pc\<lparr>plugins := plugins pc @ [typeKey]\<rparr>, None))"

definition GetPlugin :: "pluginsChain \<Rightarrow> int \<Rightarrow> pluginRegistry \<Rightarrow> error + BBRPlugin" where
  "GetPlugin pc ind r =
     (if ind < 0 \<or> ind \<ge> int (length (plugins pc)) then Inl (IndexOutOfRange ind)
      else (case GetPlugins r (plugins pc ! nat ind) of
              None \<Rightarrow> Inl (NotFoundInRegistry ind)
            | Some plugin \<Rightarrow> Inr plugin))"

definition Length :: "pluginsChain \<Rightarrow> int" where
  "Length pc = int (length (plugins pc))"

text \<open>
  \<open>AddPluginAtInd\<close>: after the range check the code reads \<open>pc.plugins[i]\<close>, which the Go
  runtime checks against the length of the slice; then it looks that element up in the
  registry, and only then builds \<open>pc.plugins[:i] ++ [typeKey] ++ pc.plugins[i:]\<close>.
\<close>

definition AddPluginAtInd ::
    "pluginsChain \<Rightarrow> string \<Rightarrow> int \<Rightarrow> pluginRegistry \<Rightarrow> (pluginsChain \<times> error option) result" where
  "AddPluginAtInd pc typeKey i r =
     (if i < 0 \<or> i > int (length (plugins pc)) then Ok (pc, Some (IndexOutOfRange i))
      else if \<not> nat i < length (plugins pc) then Panic (IndexOutOfRangePanic i (length (plugins pc)))
      else (case GetPlugins r (plugins pc ! nat i) of
              None \<Rightarrow> Ok (pc, Some (NotFoundInRegistry i))
            | Some plugin \<Rightarrow>
                Ok (pc\<lparr>plugins := take (nat i) (plugins pc) @ ([typeKey] @ drop (nat i) (plugins pc))\<rparr>,
                    None)))"

text \<open>
  What the code does besides returning: the messages the handler logs, the counters it
  records, and the runs of the two parse routines of the chain. A parse routine records
  its own run, with the data it is given, where it calls \<open>UnmarshalJSON\<close>.
\<close>

datatype event =
    LogGetPluginError error
  | LogRequiresFullParsing TypedName
  | CallParseCompletion bytes
  | CallParseChatCompletion bytes
  | LogUnknownPluginType string
  | RecordModelNotInBodyCounter
  | LogNoModelParameter
  | RecordSuccessCounter

definition ParseChatCompletion ::
    "externals \<Rightarrow> pluginsChain \<Rightarrow> bytes \<Rightarrow>
     event list \<times> pluginsChain \<times> ChatCompletionNewParams \<times> error option" where
  "ParseChatCompletion lib pc data =
     (case chat_UnmarshalJSON lib (sharedChatCompletion pc) data of
        (v, err) \<Rightarrow> ([CallParseChatCompletion data], pc\<lparr>sharedChatCompletion := v\<rparr>, v, err))"

definition ParseCompletion ::
    "externals \<Rightarrow> pluginsChain \<Rightarrow> bytes \<Rightarrow>
     event list \<times> pluginsChain \<times> CompletionNewParams \<times> error option" where
  "ParseCompletion lib pc data =
     (case completion_UnmarshalJSON lib (sharedCompletion pc) data of
        (v, err) \<Rightarrow> ([CallParseCompletion data], pc\<lparr>sharedCompletion := v\<rparr>, v, err))"

definition GetSharedMemory :: "pluginsChain \<Rightarrow> string \<Rightarrow> shared_memory" where
  "GetSharedMemory pc which =
     (if which = ''/v1/completions'' then SharedCompletion (sharedCompletion pc)
      else if which = ''/v1/chat/completions'' then SharedChatCompletion (sharedChatCompletion pc)
      else NilMemory)"

section \<open>The simple-model-extractor plugin\<close>

definition ModelHeaderKey :: string where
  "ModelHeaderKey = ''model''"

text \<open>
  \<open>simpleModelExtractor.Extract\<close>. \<open>defaultImpl\<close> is the closure of the source; the
  type switch has a case for each of the two shapes and a default case, which a nil
  \<open>sharedMemory\<close> falls into as well.
\<close>

definition Extract :: "externals \<Rightarrow> bytes \<Rightarrow> string list \<Rightarrow> shared_memory \<Rightarrow> error + gomap" where
  "Extract lib requestBodyBytes metaDataKeys sharedMemory =
     (let h = Map.empty;
          defaultImpl =
            (case json_Unmarshal_Model lib requestBodyBytes of
               Inl err \<Rightarrow> Inl err
             | Inr model \<Rightarrow> Inr (Some (h(ModelHeaderKey \<mapsto> model))))
      in case sharedMemory of
           SharedChatCompletion sharedMem \<Rightarrow>
             if length (chat_Model sharedMem) > 0
             then Inr (Some (h(ModelHeaderKey \<mapsto> chat_Model sharedMem)))
             else defaultImpl
         | SharedCompletion sharedMem \<Rightarrow>
             if length (completion_Model sharedMem) > 0
             then Inr (Some (h(ModelHeaderKey \<mapsto> completion_Model sharedMem)))
             else defaultImpl
         | NilMemory \<Rightarrow> Inl UnsupportedSharedMemoryType
         | OtherMemory \<Rightarrow> Inl UnsupportedSharedMemoryType)"

definition NewSimpleModelExtractor :: "externals \<Rightarrow> BBRPlugin" where
  "NewSimpleModelExtractor lib =
     \<lparr>typedName = \<lparr>Type = ''MetadataExtractor'', Name = ''simple-model-extractor''\<rparr>,
      requiresFullParsing = False,
      extractor = Some (Extract lib),
      selector = None\<rparr>"

section \<open>Request orchestrator\<close>

text \<open>\<open>strings.Contains\<close>: \<open>substr\<close> occurs in \<open>s\<close> as a contiguous run of bytes.\<close>

fun HasPrefix :: "string \<Rightarrow> string \<Rightarrow> bool" where
  "HasPrefix s [] = True"
| "HasPrefix [] (c # cs) = False"
| "HasPrefix (x # xs) (c # cs) = (x = c \<and> HasPrefix xs cs)"

fun Contains :: "string \<Rightarrow> string \<Rightarrow> bool" where
  "Contains [] substr = HasPrefix [] substr"
| "Contains (x # xs) substr = (HasPrefix (x # xs) substr \<or> Contains xs substr)"

text \<open>The protocol responses, with the fields the handler sets; an unset pointer is \<open>None\<close>.\<close>

datatype BodyMutation = Body bytes | StreamedResponse bytes bool

record CommonResponse =
  ClearRouteCache :: bool
  HeaderMutation :: "(string \<times> bytes) list option"
  BodyMutation :: "BodyMutation option"

datatype ProcessingResponse =
    RequestHeaders "CommonResponse option"
  | RequestBody "CommonResponse option"
  | RequestTrailers "CommonResponse option"

record Server =
  streaming :: bool
  requestChain :: pluginsChain
  registry :: pluginRegistry
  endpoint :: string
  metaDataKeys :: "string list"

definition addStreamedBodyResponse :: "ProcessingResponse list \<Rightarrow> bytes \<Rightarrow> ProcessingResponse list" where
  "addStreamedBodyResponse responses requestBodyBytes =
     responses @
       [RequestBody (Some \<lparr>ClearRouteCache = False, HeaderMutation = None,
                            BodyMutation = Some (StreamedResponse requestBodyBytes True)\<rparr>)]"

text \<open>
  The first loop of \<open>HandleRequestBody\<close>, over the indices that remain. It gives the
  events (its own log messages and those of the parse routine it calls), the chain
  after the loop (a parse routine writes the chain's cache) and either the error the
  handler returns or the value of \<open>which\<close>.
\<close>

fun scanFullParsing ::
    "externals \<Rightarrow> Server \<Rightarrow> bytes \<Rightarrow> int list \<Rightarrow> event list \<times> pluginsChain \<times> string result" where
  "scanFullParsing lib s requestBodyBytes [] = ([], requestChain s, Ok [])"
| "scanFullParsing lib s requestBodyBytes (i # rest) =
     (case GetPlugin (requestChain s) i (registry s) of
        Inl err \<Rightarrow>
          (case scanFullParsing lib s requestBodyBytes rest of
             (evs, pc, r) \<Rightarrow> (LogGetPluginError err # evs, pc, r))
      | Inr plugin \<Rightarrow>
          if requiresFullParsing plugin then
            (if Contains (endpoint s) ''/v1/completions'' then
               (case ParseCompletion lib (requestChain s) requestBodyBytes of
                  (evs, pc, v, Some err) \<Rightarrow>
                    (LogRequiresFullParsing (typedName plugin) # evs, pc, Err err)
                | (evs, pc, v, None) \<Rightarrow>
                    (LogRequiresFullParsing (typedName plugin) # evs, pc, Ok ''/v1/completions''))
             else if Contains (endpoint s) ''/v1/chat/completions'' then
               (case ParseChatCompletion lib (requestChain s) requestBodyBytes of
                  (evs, pc, v, Some err) \<Rightarrow>
                    (LogRequiresFullParsing (typedName plugin) # evs, pc, Err err)
                | (evs, pc, v, None) \<Rightarrow>
                    (LogRequiresFullParsing (typedName plugin) # evs, pc,
                     Ok ''/v1/chat/completions''))
             else ([LogRequiresFullParsing (typedName plugin)], requestChain s, Ok []))
          else scanFullParsing lib s requestBodyBytes rest)"

text \<open>
  One iteration of the second loop, on the accumulator \<open>allHeaders\<close> and
  \<open>mutatedBodyBytes\<close>. The error of \<open>GetPlugin\<close> is dropped by the source
  (\<open>plugin, _ := ...\<close>), so on a failed resolution \<open>plugin\<close> is the nil interface and
  \<open>plugin.TypedName()\<close> panics. \<open>MergeMaps\<close> writes into \<open>allHeaders\<close>, which is
  allocated, so the accumulator after the call is the map \<open>MergeMaps\<close> returns.
\<close>

definition runPlugin ::
    "Server \<Rightarrow> bytes \<Rightarrow> string \<Rightarrow> int \<Rightarrow> gomap \<times> bytes \<Rightarrow> event list \<times> (gomap \<times> bytes) result" where
  "runPlugin s requestBodyBytes which i st =
     (case st of (allHeaders, mutatedBodyBytes) \<Rightarrow>
      (case GetPlugin (requestChain s) i (registry s) of
         Inl err \<Rightarrow> ([], Panic NilDereference)
       | Inr plugin \<Rightarrow>
           (let pluginType = Type (typedName plugin) in
            if pluginType = ''MetadataExtractor'' then
              (case extractor plugin of
                 None \<Rightarrow> ([], Ok (allHeaders, mutatedBodyBytes))
               | Some Extract_method \<Rightarrow>
                   (case Extract_method requestBodyBytes (metaDataKeys s)
                           (GetSharedMemory (requestChain s) which) of
                      Inl err \<Rightarrow> ([], Err err)
                    | Inr headers \<Rightarrow> ([], Ok (MergeMaps allHeaders headers, mutatedBodyBytes))))
            else if pluginType = ''ModelSelector'' then
              (case selector plugin of
                 None \<Rightarrow> ([], Ok (allHeaders, mutatedBodyBytes))
               | Some Select_method \<Rightarrow>
                   (case Select_method requestBodyBytes (GetSharedMemory (requestChain s) which) of
                      Inl err \<Rightarrow> ([], Err err)
                    | Inr (headers, mutated) \<Rightarrow>
                        if length mutated = 0 then ([], Err (EmptyMutatedBody (typedName plugin)))
                        else ([], Ok (MergeMaps allHeaders headers, mutated))))
            else ([LogUnknownPluginType pluginType], Ok (allHeaders, mutatedBodyBytes)))))"

fun runChain ::
    "Server \<Rightarrow> bytes \<Rightarrow> string \<Rightarrow> int list \<Rightarrow> gomap \<times> bytes \<Rightarrow> event list \<times> (gomap \<times> bytes) result" where
  "runChain s requestBodyBytes which [] st = ([], Ok st)"
| "runChain s requestBodyBytes which (i # rest) st =
     (case runPlugin s requestBodyBytes which i st of
        (evs, Ok st') \<Rightarrow>
          (case runChain s requestBodyBytes which rest st' of (evs', r) \<Rightarrow> (evs @ evs', r))
      | (evs, Err e) \<Rightarrow> (evs, Err e)
      | (evs, Panic p) \<Rightarrow> (evs, Panic p))"

text \<open>The model-presence check and the assembly of the responses.\<close>

definition assemble :: "bool \<Rightarrow> bytes \<Rightarrow> gomap \<times> bytes \<Rightarrow> event list \<times> ProcessingResponse list" where
  "assemble stream requestBodyBytes st =
     (case st of (allHeaders, mutatedBodyBytes) \<Rightarrow>
      (let Model = value_at allHeaders ModelHeader;
           mutation = Some [(ModelHeader, Model)]
       in if Model = [] then
            ([RecordModelNotInBodyCounter, LogNoModelParameter],
             if stream then addStreamedBodyResponse [RequestHeaders None] requestBodyBytes
             else [RequestBody None])
          else
            ([RecordSuccessCounter],
             if stream then
               addStreamedBodyResponse
                 [RequestHeaders (Some \<lparr>ClearRouteCache = True, HeaderMutation = mutation,
                                         BodyMutation = None\<rparr>)]
                 mutatedBodyBytes
             else
               [RequestBody (Some \<lparr>ClearRouteCache = True, HeaderMutation = mutation,
                                    BodyMutation = Some (Body mutatedBodyBytes)\<rparr>)])))"

record handled =
  returned :: "ProcessingResponse list result"
  chainAfter :: pluginsChain
  events :: "event list"

definition HandleRequestBody :: "externals \<Rightarrow> Server \<Rightarrow> bytes \<Rightarrow> handled" where
  "HandleRequestBody lib s requestBodyBytes =
     (case scanFullParsing lib s requestBodyBytes (map int [0..<nat (Length (requestChain s))]) of
        (evs1, pc, Err e) \<Rightarrow> \<lparr>returned = Err e, chainAfter = pc, events = evs1\<rparr>
      | (evs1, pc, Panic p) \<Rightarrow> \<lparr>returned = Panic p, chainAfter = pc, events = evs1\<rparr>
      | (evs1, pc, Ok which) \<Rightarrow>
          (case runChain (s\<lparr>requestChain := pc\<rparr>) requestBodyBytes which
                  (map int [0..<nat (Length pc)]) (Some Map.empty, requestBodyBytes) of
             (evs2, Err e) \<Rightarrow> \<lparr>returned = Err e, chainAfter = pc, events = evs1 @ evs2\<rparr>
           | (evs2, Panic p) \<Rightarrow> \<lparr>returned = Panic p, chainAfter = pc, events = evs1 @ evs2\<rparr>
           | (evs2, Ok st) \<Rightarrow>
               (case assemble (streaming s) requestBodyBytes st of
                  (evs3, ret) \<Rightarrow>
                    \<lparr>returned = Ok ret, chainAfter = pc, events = evs1 @ evs2 @ evs3\<rparr>)))"

section \<open>Initialisation of the default request chain\<close>

definition DefaultPluginType :: string where
  "DefaultPluginType = ''MetadataExtractor''"

definition DefaultPluginImplementation :: string where
  "DefaultPluginImplementation = ''simple-model-selector''"

text \<open>
  The closure \<open>processPlugin\<close> of \<open>InitPlugins\<close> (it drops the error of
  \<open>chain.AddPlugin\<close>), and the last step of \<open>InitPlugins\<close>: when the request chain is
  empty after the environment has been read, the simple-model-extractor is registered
  and becomes the only entry of the chain.
\<close>

definition processPlugin ::
    "pluginRegistry \<Rightarrow> string \<Rightarrow> string \<Rightarrow> pluginsChain \<Rightarrow>
     (pluginRegistry \<times> pluginsChain) \<times> error option" where
  "processPlugin reg pluginType implementation chain =
     (case CreatePlugin reg pluginType of
        Inl err \<Rightarrow> ((reg, chain), Some (FailedToCreateInstance pluginType implementation err))
      | Inr plugin \<Rightarrow>
          (case RegisterPlugin reg plugin of
             (reg', Some err) \<Rightarrow>
               ((reg', chain), Some (FailedToRegisterInstance pluginType implementation err))
           | (reg', None) \<Rightarrow>
               ((reg', fst (AddPlugin chain pluginType reg')), None)))"

definition initDefaultRequestChain ::
    "externals \<Rightarrow> pluginRegistry \<Rightarrow> pluginsChain \<Rightarrow>
     (pluginRegistry \<times> pluginsChain) \<times> error option" where
  "initDefaultRequestChain lib reg chain =
     (if Length chain = 0 then
        (case RegisterFactory reg DefaultPluginType (\<lambda>u. NewSimpleModelExtractor lib) of
           (reg', Some err) \<Rightarrow> ((reg', chain), Some (FailedToRegisterFactory err))
         | (reg', None) \<Rightarrow>
             (case processPlugin reg' DefaultPluginType DefaultPluginImplementation
                     chain of
                (rc, Some err) \<Rightarrow> (rc, Some (FailedToCreateDefault err))
              | (rc, None) \<Rightarrow> (rc, None)))
      else ((reg, chain), None))"

section \<open>Example configurations\<close>

text \<open>
  The server for a non-streaming request to \<open>/v1/completions\<close> with the registry and
  the request chain that \<open>InitPlugins\<close> builds when no chain is configured, and the
  default metadata keys.
\<close>

definition defaultServer :: "externals \<Rightarrow> Server" where
  "defaultServer lib =
     (case initDefaultRequestChain lib NewPluginRegistry NewPluginsChain of
        ((r, pc), err) \<Rightarrow>
          \<lparr>streaming = False, requestChain = pc, registry = r,
           endpoint = ''/v1/completions'', metaDataKeys = [''model'']\<rparr>)"

text \<open>
  The same server after \<open>UnregisterPlugin("MetadataExtractor")\<close>: its chain still
  holds the type key, the registry no longer has the instance.
\<close>

definition unregisteredServer :: "externals \<Rightarrow> Server" where
  "unregisteredServer lib =
     (defaultServer lib)
       \<lparr>registry := fst (UnregisterPlugin (registry (defaultServer lib)) ''MetadataExtractor'')\<rparr>"

text \<open>
  A metadata extractor whose \<open>Extract\<close> returns the given headers, and a model selector
  whose \<open>Select\<close> returns the given headers and body; neither asks for full parsing.
\<close>

definition fixedExtractor :: "string \<Rightarrow> gomap \<Rightarrow> BBRPlugin" where
  "fixedExtractor n headers =
     \<lparr>typedName = \<lparr>Type = ''MetadataExtractor'', Name = n\<rparr>,
      requiresFullParsing = False,
      extractor = Some (\<lambda>requestBodyBytes metaDataKeys sharedMemory. Inr headers),
      selector = None\<rparr>"

definition fixedSelector :: "string \<Rightarrow> gomap \<Rightarrow> bytes \<Rightarrow> BBRPlugin" where
  "fixedSelector n headers mutated =
     \<lparr>typedName = \<lparr>Type = ''ModelSelector'', Name = n\<rparr>,
      requiresFullParsing = False,
      extractor = None,
      selector = Some (\<lambda>requestBodyBytes sharedMemory. Inr (headers, mutated))\<rparr>"

text \<open>A server over a given registry map and chain, for a non-streaming request.\<close>

definition serverOf :: "(string \<rightharpoonup> BBRPlugin) \<Rightarrow> string list \<Rightarrow> string \<Rightarrow> Server" where
  "serverOf instances keys path =
     \<lparr>streaming = False,
      requestChain = NewPluginsChain\<lparr>plugins := keys\<rparr>,
      registry = NewPluginRegistry\<lparr>pluginInstances := instances\<rparr>,
      endpoint = path, metaDataKeys = [''model'']\<rparr>"

text \<open>A factory that hands out a given instance.\<close>

definition factoryOf :: "BBRPlugin \<Rightarrow> PluginFactoryFunc" where
  "factoryOf p = (\<lambda>u. p)"


text \<open>
  Library routines for the examples: every body parses, and its model is \<open>foo\<close>.
\<close>

definition stubExternals :: externals where
  "stubExternals =
     \<lparr>json_Unmarshal_Model = (\<lambda>data. Inr ''foo''),
      completion_UnmarshalJSON = (\<lambda>old data. (CompletionNewParams ''foo'', None)),
      chat_UnmarshalJSON = (\<lambda>old data. (ChatCompletionNewParams ''foo'', None))\<rparr>"



section \<open>The body-field-to-header plugin\<close>

text \<open>
  A value of type \<open>any\<close> in the body is a string or a value of another dynamic type;
  \<open>fmt.Sprintf("%v", _)\<close> on the latter is the parameter \<open>sprint\<close>. The loop over
  \<open>headerToFieldMap\<close> visits each header name once and writes only that key of the
  fresh map, so \<open>updatedHeaders\<close> is given key by key in \<open>Execute\<close>.
  \<open>range_extract\<close> is the loop itself over an enumeration of the entries of
  \<open>headerToFieldMap\<close>; \<open>Execute_is_loop\<close> below shows that \<open>Execute\<close> is that
  loop started on the empty map.
\<close>

datatype 'a any = AString string | ANonString 'a

record BodyFieldToHeaderPlugin =
  bodyFieldTypedName :: TypedName
  headerToFieldMap :: gomap

fun range_extract ::
    "('a \<Rightarrow> string) \<Rightarrow> (string \<times> string) list \<Rightarrow> (string \<rightharpoonup> 'a any) option \<Rightarrow>
     (string \<rightharpoonup> string) \<Rightarrow> (string \<rightharpoonup> string)" where
  "range_extract sprint [] body updatedHeaders = updatedHeaders"
| "range_extract sprint ((headerName, fieldName) # rest) body updatedHeaders =
     range_extract sprint rest body
       (case lookup body fieldName of
          None \<Rightarrow> updatedHeaders
        | Some fieldValue \<Rightarrow>
            updatedHeaders(headerName \<mapsto>
              (case fieldValue of AString str \<Rightarrow> str | ANonString x \<Rightarrow> sprint x)))"

definition Execute ::
    "('a \<Rightarrow> string) \<Rightarrow> BodyFieldToHeaderPlugin \<Rightarrow> gomap \<Rightarrow> (string \<rightharpoonup> 'a any) option \<Rightarrow>
     gomap \<times> (string \<rightharpoonup> 'a any) option \<times> error option" where
  "Execute sprint p headers body =
     (let updatedHeaders =
            (\<lambda>headerName.
               case lookup (headerToFieldMap p) headerName of
                 None \<Rightarrow> None
               | Some fieldName \<Rightarrow>
                   (case lookup body fieldName of
                      None \<Rightarrow> None
                    | Some fieldValue \<Rightarrow>
                        Some (case fieldValue of
                                AString str \<Rightarrow> str
                              | ANonString x \<Rightarrow> sprint x)))
      in (Some updatedHeaders, body, None))"

section \<open>Properties of MergeMaps\<close>

lemma range_fill_pointwise:
  "range_fill kvs dst = fill_absent dst (map_of kvs)"
proof (induction kvs arbitrary: dst)
  case Nil
  show ?case by (simp add: fill_absent_def fun_eq_iff split: option.split)
next
  case (Cons kv kvs)
  obtain k v where kv: "kv = (k, v)" by (cases kv)
  show ?case
    unfolding kv by (simp add: Cons.IH fill_absent_def fun_eq_iff split: option.split)
qed

lemma MergeMaps_lookup:
  "lookup (MergeMaps dst src) k =
     (case lookup dst k of Some x \<Rightarrow> Some x | None \<Rightarrow> lookup src k)"
  by (simp add: MergeMaps_def lookup_def fill_absent_def split: option.split)

lemma MergeMaps_allocated: "\<exists>m. MergeMaps dst src = Some m"
  by (simp add: MergeMaps_def split: option.split)

text \<open>
  Claim C9. \<open>MergeMaps dst src\<close> leaves the binding of every key that \<open>dst\<close> already
  has as it was; a key absent from \<open>dst\<close> gets the binding it has in \<open>src\<close> (none when
  \<open>src\<close> lacks it too). Merging the same \<open>src\<close> a second time changes nothing, and
  the map returned is allocated whatever \<open>dst\<close> and \<open>src\<close> are, nil included.
\<close>

theorem MergeMaps_fill_only_absent:
  "(lookup dst k = Some v \<longrightarrow> lookup (MergeMaps dst src) k = Some v)
   \<and> (lookup dst k = None \<longrightarrow> lookup (MergeMaps dst src) k = lookup src k)
   \<and> MergeMaps (MergeMaps dst src) src = MergeMaps dst src
   \<and> (\<exists>m. MergeMaps dst src = Some m)"
proof -
  have keep: "lookup dst k = Some v \<longrightarrow> lookup (MergeMaps dst src) k = Some v"
    by (simp add: MergeMaps_lookup)
  have fill: "lookup dst k = None \<longrightarrow> lookup (MergeMaps dst src) k = lookup src k"
    by (simp add: MergeMaps_lookup)
  have idem: "MergeMaps (MergeMaps dst src) src = MergeMaps dst src"
    by (cases src; cases dst)
       (simp_all add: MergeMaps_def fill_absent_def fun_eq_iff split: option.split)
  show ?thesis
    using keep fill idem MergeMaps_allocated by blast
qed

theorem MergeMaps_fill_only_absent_witness:
  "lookup (Some [''H'' \<mapsto> ''a'']) ''H'' = Some ''a''
   \<and> lookup (MergeMaps (Some [''H'' \<mapsto> ''a'']) (Some [''H'' \<mapsto> ''c'', ''G'' \<mapsto> ''d''])) ''H'' = Some ''a''
   \<and> lookup (Some [''H'' \<mapsto> ''a'']) ''G'' = None
   \<and> lookup (MergeMaps (Some [''H'' \<mapsto> ''a'']) (Some [''H'' \<mapsto> ''c'', ''G'' \<mapsto> ''d''])) ''G'' = Some ''d''"
  using MergeMaps_fill_only_absent [of "Some [''H'' \<mapsto> ''a'']" "''H''" "''a''" "Some [''H'' \<mapsto> ''c'', ''G'' \<mapsto> ''d'']"]
        MergeMaps_fill_only_absent [of "Some [''H'' \<mapsto> ''a'']" "''G''" "''a''" "Some [''H'' \<mapsto> ''c'', ''G'' \<mapsto> ''d'']"]
  by (simp add: lookup_def)

section \<open>The default configuration\<close>

lemma SupportedInterfaces_MetadataExtractor:
  "SupportedInterfaces ''MetadataExtractor'' = Some [''simple-model-extractor'']"
  by (simp add: SupportedInterfaces_def)

lemma defaultServer_eq:
  "defaultServer lib =
     \<lparr>streaming = False,
      requestChain = \<lparr>plugins = [''MetadataExtractor''],
                      sharedChatCompletion = ChatCompletionNewParams [],
                      sharedCompletion = CompletionNewParams []\<rparr>,
      registry = \<lparr>pluginsFactory = [''MetadataExtractor'' \<mapsto> (\<lambda>u. NewSimpleModelExtractor lib)],
                  pluginInstances = [''MetadataExtractor'' \<mapsto> NewSimpleModelExtractor lib]\<rparr>,
      endpoint = ''/v1/completions'', metaDataKeys = [''model'']\<rparr>"
  by (simp add: defaultServer_def initDefaultRequestChain_def processPlugin_def
      RegisterFactory_def RegisterPlugin_def CreatePlugin_def AddPlugin_def ContainsPlugin_def
      NewPluginRegistry_def NewPluginsChain_def Length_def DefaultPluginType_def
      DefaultPluginImplementation_def SupportedInterfaces_MetadataExtractor
      NewSimpleModelExtractor_def)

lemma unregisteredServer_eq:
  "unregisteredServer lib =
     \<lparr>streaming = False,
      requestChain = \<lparr>plugins = [''MetadataExtractor''],
                      sharedChatCompletion = ChatCompletionNewParams [],
                      sharedCompletion = CompletionNewParams []\<rparr>,
      registry = \<lparr>pluginsFactory = [''MetadataExtractor'' \<mapsto> (\<lambda>u. NewSimpleModelExtractor lib)],
                  pluginInstances = Map.empty\<rparr>,
      endpoint = ''/v1/completions'', metaDataKeys = [''model'']\<rparr>"
  by (simp add: unregisteredServer_def defaultServer_eq UnregisterPlugin_def)

lemma Extract_nil: "Extract lib body keys NilMemory = Inl UnsupportedSharedMemoryType"
  by (simp add: Extract_def)

lemma GetSharedMemory_empty: "GetSharedMemory pc [] = NilMemory"
  by (simp add: GetSharedMemory_def)

text \<open>
  Whatever it is given, \<open>Extract\<close> writes the key \<open>model\<close> and never the header
  \<open>X-Gateway-Model-Name\<close> that the handler reads.
\<close>

lemma Extract_never_sets_ModelHeader:
  "Extract lib body keys sharedMemory = Inr headers \<Longrightarrow> lookup headers ModelHeader = None"
  by (cases sharedMemory)
     (auto simp add: Extract_def Let_def lookup_def ModelHeader_def ModelHeaderKey_def
           split: if_splits sum.splits)

lemma GetPlugin_default:
  "GetPlugin (requestChain (defaultServer lib)) 0 (registry (defaultServer lib)) =
     Inr (NewSimpleModelExtractor lib)"
  by (simp add: defaultServer_eq GetPlugin_def GetPlugins_def)

lemma default_indices: "map int [0..<nat (Length (requestChain (defaultServer lib)))] = [0]"
  by (simp add: defaultServer_eq Length_def)

lemma scan_default:
  "scanFullParsing lib (defaultServer lib) body [0] = ([], requestChain (defaultServer lib), Ok [])"
  by (simp add: GetPlugin_default NewSimpleModelExtractor_def)

lemma run_default:
  "runChain (defaultServer lib) body [] [0] st = ([], Err UnsupportedSharedMemoryType)"
  by (cases st)
     (simp add: runPlugin_def GetPlugin_default NewSimpleModelExtractor_def GetSharedMemory_def
        Extract_nil)

text \<open>
  Claim C1, on the code. The server is the one \<open>InitPlugins\<close> sets up when no chain is
  configured: the simple-model-extractor alone, no selector, no streaming, endpoint
  \<open>/v1/completions\<close>. On the body \<open>{"model":"foo","prompt":"hi"}\<close> the handler returns
  the error of \<open>Extract\<close> for a nil shared memory and no response, whatever the JSON
  routines do: no header is set and no body is carried.
\<close>

theorem HandleRequestBody_default_round_trip_fails:
  "HandleRequestBody lib (defaultServer lib) ''{\"model\":\"foo\",\"prompt\":\"hi\"}'' =
     \<lparr>returned = Err UnsupportedSharedMemoryType,
      chainAfter = requestChain (defaultServer lib), events = []\<rparr>"
proof -
  have same: "(defaultServer lib)\<lparr>requestChain := requestChain (defaultServer lib)\<rparr> = defaultServer lib"
    by simp
  show ?thesis
    unfolding HandleRequestBody_def default_indices scan_default
    by (simp add: same default_indices run_default del: runChain.simps)
qed

text \<open>
  Claim C3, on the code. When no plugin asks for full parsing \<open>which\<close> stays empty and
  \<open>GetSharedMemory\<close> hands out nil; on nil the \<open>Extract\<close> of the
  simple-model-extractor returns an error, for every body and every key list, without
  reaching its own parsing of the body.
\<close>

theorem Extract_rejects_nil_shared_memory:
  "Extract lib body keys NilMemory = Inl UnsupportedSharedMemoryType
   \<and> Extract lib body keys (GetSharedMemory pc []) = Inl UnsupportedSharedMemoryType"
  by (simp add: Extract_nil GetSharedMemory_empty)

text \<open>An entry that does not resolve makes its iteration of the second loop panic.\<close>

lemma runPlugin_unresolved:
  "GetPlugin (requestChain s) i (registry s) = Inl err \<Longrightarrow>
   runPlugin s b w i st = ([], Panic NilDereference)"
  by (cases st) (simp add: runPlugin_def)

text \<open>
  Claim C4, on the code. With the instance unregistered after the chain was built, the
  first loop logs the failed resolution and goes on; the second loop calls
  \<open>TypedName\<close> on the nil plugin and the handler panics, for every body.
\<close>

theorem HandleRequestBody_unresolved_entry_panics:
  "HandleRequestBody lib (unregisteredServer lib) body =
     \<lparr>returned = Panic NilDereference,
      chainAfter = requestChain (unregisteredServer lib),
      events = [LogGetPluginError (NotFoundInRegistry 0)]\<rparr>"
  by (simp add: HandleRequestBody_def unregisteredServer_eq Length_def GetPlugin_def
      GetPlugins_def runPlugin_def)

section \<open>Header merge in the chain\<close>

text \<open>
  Claim C2, on the code. Two metadata extractors that return \<open>{"H":"a"}\<close> and then
  \<open>{"H":"b"}\<close> leave \<open>"a"\<close> under \<open>H\<close> in the accumulator: the value of the earlier
  extractor stays. A metadata extractor returning \<open>{"H":"a"}\<close> followed by a model
  selector returning \<open>{"H":"c"}\<close> leaves \<open>"a"\<close> as well. The last conjunct is
  the accumulator after the two calls of \<open>MergeMaps\<close> alone, as the extractor branch
  makes them on the empty \<open>allHeaders\<close>.
\<close>

theorem extractor_headers_do_not_overwrite:
  "(case snd (runChain
        (serverOf [''E1'' \<mapsto> fixedExtractor ''e1'' (Some [''H'' \<mapsto> ''a'']),
                   ''E2'' \<mapsto> fixedExtractor ''e2'' (Some [''H'' \<mapsto> ''b''])]
                  [''E1'', ''E2''] ''/v1/completions'')
        ''{}'' [] [0, 1] (Some Map.empty, ''{}'')) of
      Ok (allHeaders, mutatedBodyBytes) \<Rightarrow> value_at allHeaders ''H'' = ''a''
    | Err e \<Rightarrow> False
    | Panic p \<Rightarrow> False)
   \<and> (case snd (runChain
        (serverOf [''MetadataExtractor'' \<mapsto> fixedExtractor ''e1'' (Some [''H'' \<mapsto> ''a'']),
                   ''ModelSelector'' \<mapsto> fixedSelector ''s1'' (Some [''H'' \<mapsto> ''c'']) ''{}'']
                  [''MetadataExtractor'', ''ModelSelector''] ''/v1/completions'')
        ''{}'' [] [0, 1] (Some Map.empty, ''{}'')) of
      Ok (allHeaders, mutatedBodyBytes) \<Rightarrow> value_at allHeaders ''H'' = ''a''
    | Err e \<Rightarrow> False
    | Panic p \<Rightarrow> False)
   \<and> value_at (MergeMaps (MergeMaps (Some Map.empty) (Some [''H'' \<mapsto> ''a'']))
                           (Some [''H'' \<mapsto> ''b''])) ''H'' = ''a''"
  by (simp add: serverOf_def runPlugin_def GetPlugin_def GetPlugins_def NewPluginsChain_def
      NewPluginRegistry_def fixedExtractor_def fixedSelector_def GetSharedMemory_def
      MergeMaps_def fill_absent_def value_at_def lookup_def)

section \<open>Chain execution\<close>

lemma runChain_append:
  "runChain s b w (xs @ ys) st =
     (case runChain s b w xs st of
        (evs, Ok st') \<Rightarrow> (case runChain s b w ys st' of (evs', r) \<Rightarrow> (evs @ evs', r))
      | (evs, Err e) \<Rightarrow> (evs, Err e)
      | (evs, Panic p) \<Rightarrow> (evs, Panic p))"
  by (induction xs arbitrary: st) (auto split: prod.splits result.splits)

lemma scan_keeps_plugins:
  "scanFullParsing lib s b idx = (evs, pc, r) \<Longrightarrow> plugins pc = plugins (requestChain s)"
  by (induction idx arbitrary: evs)
     (auto simp add: ParseCompletion_def ParseChatCompletion_def
           split: sum.splits prod.splits if_splits option.splits)

lemma GetPlugin_plugins:
  "plugins pc = plugins pc' \<Longrightarrow> GetPlugin pc i r = GetPlugin pc' i r"
  by (simp add: GetPlugin_def)

lemma runPlugin_empty_selector:
  assumes "GetPlugin (requestChain s) i (registry s) = Inr p"
      and "Type (typedName p) = ''ModelSelector''"
      and "selector p = Some sel"
      and "sel b (GetSharedMemory (requestChain s) w) = Inr (hs, [])"
  shows "runPlugin s b w i st = ([], Err (EmptyMutatedBody (typedName p)))"
  using assms by (cases st) (simp add: runPlugin_def)

lemma upt_split_at:
  assumes "i < n"
  shows "[0..<n] = [0..<i] @ i # [Suc i..<n]"
proof -
  have "[0..<i + (n - i)] = [0..<i] @ [i..<i + (n - i)]"
    by (rule upt_add_eq_append) simp
  with assms show ?thesis by (simp add: upt_conv_Cons)
qed

text \<open>
  Claim C6. Let the first loop go through, and let some entry of the chain, at any
  position \<open>i\<close>, resolve to a \<open>ModelSelector\<close> whose \<open>Select\<close> returns an empty
  mutated body on this request. Then the handler never returns responses; and when the
  entries before \<open>i\<close> run through, so that this selector is called, the handler
  returns the error for an empty mutated body, naming that selector.
\<close>

theorem empty_mutated_body_aborts:
  assumes scan: "scanFullParsing lib s body (map int [0..<nat (Length (requestChain s))]) = (evs1, pc, Ok which)"
      and i: "i < length (plugins pc)"
      and get: "GetPlugin pc (int i) (registry s) = Inr plugin"
      and ty: "Type (typedName plugin) = ''ModelSelector''"
      and sel: "selector plugin = Some Select_method"
      and empty: "Select_method body (GetSharedMemory pc which) = Inr (headers, [])"
  shows "(\<forall>ret. returned (HandleRequestBody lib s body) \<noteq> Ok ret)
       \<and> (\<forall>evs st. runChain (s\<lparr>requestChain := pc\<rparr>) body which (map int [0..<i])
                       (Some Map.empty, body) = (evs, Ok st)
             \<longrightarrow> returned (HandleRequestBody lib s body) = Err (EmptyMutatedBody (typedName plugin)))"
proof -
  let ?s = "s\<lparr>requestChain := pc\<rparr>"
  let ?st0 = "(Some Map.empty, body) :: gomap \<times> bytes"
  let ?pre = "runChain ?s body which (map int [0..<i]) ?st0"
  have step: "runPlugin ?s body which (int i) st = ([], Err (EmptyMutatedBody (typedName plugin)))" for st
    by (rule runPlugin_empty_selector [where sel = Select_method and hs = headers])
       (use get ty sel empty in simp_all)
  have idx: "map int [0..<nat (Length pc)] = map int [0..<i] @ int i # map int [Suc i..<length (plugins pc)]"
    using upt_split_at [OF i] by (simp add: Length_def)
  have tail: "runChain ?s body which (int i # rest) st = ([], Err (EmptyMutatedBody (typedName plugin)))" for rest st
    by (simp add: step)
  have whole: "runChain ?s body which (map int [0..<nat (Length pc)]) ?st0 =
      (case ?pre of
         (evs, Ok st') \<Rightarrow> (evs @ [], Err (EmptyMutatedBody (typedName plugin)))
       | (evs, Err e) \<Rightarrow> (evs, Err e)
       | (evs, Panic p) \<Rightarrow> (evs, Panic p))"
    unfolding idx runChain_append
    by (simp add: tail del: runChain.simps split: prod.splits result.splits)
  have never: "\<forall>ret. returned (HandleRequestBody lib s body) \<noteq> Ok ret"
    unfolding HandleRequestBody_def scan
    by (simp add: whole del: runChain.simps split: prod.splits result.splits)
  have reach: "returned (HandleRequestBody lib s body) = Err (EmptyMutatedBody (typedName plugin))"
    if "?pre = (evs, Ok st)" for evs st
    unfolding HandleRequestBody_def scan
    using that by (simp add: whole del: runChain.simps)
  show ?thesis using never reach by blast
qed


theorem empty_mutated_body_aborts_witness:
  "scanFullParsing stubExternals
       (serverOf [''MetadataExtractor'' \<mapsto> fixedExtractor ''simple-model-extractor'' (Some [ModelHeader \<mapsto> ''foo'']),
                  ''ModelSelector'' \<mapsto> fixedSelector ''semantic-model-selector'' None []]
                 [''MetadataExtractor'', ''ModelSelector''] ''/v1/completions'')
       ''{}'' [0, 1] = ([], NewPluginsChain\<lparr>plugins := [''MetadataExtractor'', ''ModelSelector'']\<rparr>, Ok [])
   \<and> returned (HandleRequestBody stubExternals
       (serverOf [''MetadataExtractor'' \<mapsto> fixedExtractor ''simple-model-extractor'' (Some [ModelHeader \<mapsto> ''foo'']),
                  ''ModelSelector'' \<mapsto> fixedSelector ''semantic-model-selector'' None []]
                 [''MetadataExtractor'', ''ModelSelector''] ''/v1/completions'')
       ''{}'') = Err (EmptyMutatedBody \<lparr>Type = ''ModelSelector'', Name = ''semantic-model-selector''\<rparr>)"
proof -
  let ?s = "serverOf [''MetadataExtractor'' \<mapsto> fixedExtractor ''simple-model-extractor'' (Some [ModelHeader \<mapsto> ''foo'']),
                  ''ModelSelector'' \<mapsto> fixedSelector ''semantic-model-selector'' None []]
                 [''MetadataExtractor'', ''ModelSelector''] ''/v1/completions''"
  let ?pc = "NewPluginsChain\<lparr>plugins := [''MetadataExtractor'', ''ModelSelector'']\<rparr>"
  have idx: "map int [0..<nat (Length (requestChain ?s))] = [0, 1]"
    by (simp add: serverOf_def Length_def upt_rec)
  have scan01: "scanFullParsing stubExternals ?s ''{}'' [0, 1] = ([], ?pc, Ok [])"
    by (simp add: serverOf_def GetPlugin_def GetPlugins_def NewPluginsChain_def
        NewPluginRegistry_def fixedExtractor_def fixedSelector_def)
  have scan: "scanFullParsing stubExternals ?s ''{}'' (map int [0..<nat (Length (requestChain ?s))])
      = ([], ?pc, Ok [])"
    unfolding idx by (rule scan01)
  have i: "1 < length (plugins ?pc)"
    by simp
  have get: "GetPlugin ?pc (int 1) (registry ?s) = Inr (fixedSelector ''semantic-model-selector'' None [])"
    by (simp add: serverOf_def GetPlugin_def GetPlugins_def NewPluginRegistry_def)
  have ty: "Type (typedName (fixedSelector ''semantic-model-selector'' None [])) = ''ModelSelector''"
    by (simp add: fixedSelector_def)
  have sel: "selector (fixedSelector ''semantic-model-selector'' None []) = Some (\<lambda>requestBodyBytes sharedMemory. Inr (None, []))"
    by (simp add: fixedSelector_def)
  have empty: "(\<lambda>requestBodyBytes sharedMemory. Inr (None, [])) ''{}'' (GetSharedMemory ?pc []) = Inr (None :: gomap, [] :: bytes)"
    by simp
  have pre: "runChain (?s\<lparr>requestChain := ?pc\<rparr>) ''{}'' [] (map int [0..<1]) (Some Map.empty, ''{}'')
      = ([], Ok (MergeMaps (Some Map.empty) (Some [ModelHeader \<mapsto> ''foo'']), ''{}''))"
    by (simp add: serverOf_def runPlugin_def GetPlugin_def GetPlugins_def NewPluginsChain_def
        NewPluginRegistry_def fixedExtractor_def)
  have res: "returned (HandleRequestBody stubExternals ?s ''{}'') =
      Err (EmptyMutatedBody (typedName (fixedSelector ''semantic-model-selector'' None [])))"
    using empty_mutated_body_aborts [OF scan i get ty sel empty] pre by blast
  have tn: "typedName (fixedSelector ''semantic-model-selector'' None []) =
      \<lparr>Type = ''ModelSelector'', Name = ''semantic-model-selector''\<rparr>"
    by (simp add: fixedSelector_def)
  show ?thesis
    using res scan01 by (simp add: tn)
qed












section \<open>Chain and registry operations\<close>

text \<open>
  Claim C5, on the code. \<open>AddPluginAtInd\<close> with the index equal to the length of the
  chain passes the range check and then reads \<open>pc.plugins[i]\<close> out of range: it panics
  instead of appending, for every chain, and so for the empty chain at index 0.
\<close>

theorem AddPluginAtInd_at_length_panics:
  "AddPluginAtInd pc typeKey (Length pc) r =
     Panic (IndexOutOfRangePanic (Length pc) (length (plugins pc)))
   \<and> AddPluginAtInd NewPluginsChain ''MetadataExtractor'' 0 r = Panic (IndexOutOfRangePanic 0 0)"
  by (simp add: AddPluginAtInd_def Length_def NewPluginsChain_def)

text \<open>
  Claim C7 as stated fails for \<open>RegisterFactory\<close>: the pair of the supported type
  \<open>MetadataExtractor\<close> and the name \<open>bogus\<close> is not in \<open>SupportedInterfaces\<close>, yet
  registering a factory under that type returns no error and changes the factory map.
\<close>

theorem RegisterFactory_ignores_name_counterexample:
  "\<not> supportedPair ''MetadataExtractor'' ''bogus''
   \<and> snd (RegisterFactory NewPluginRegistry ''MetadataExtractor''
             (factoryOf (fixedExtractor ''bogus'' None))) = None
   \<and> pluginsFactory (fst (RegisterFactory NewPluginRegistry ''MetadataExtractor''
             (factoryOf (fixedExtractor ''bogus'' None)))) ''MetadataExtractor''
       \<noteq> pluginsFactory NewPluginRegistry ''MetadataExtractor''"
  by (simp add: supportedPair_def SupportedInterfaces_MetadataExtractor RegisterFactory_def
      NewPluginRegistry_def)

text \<open>
  Claim C7, amended. For every type that is not a key of \<open>SupportedInterfaces\<close>,
  \<open>RegisterFactory\<close> returns the error for an unsupported interface and the registry is
  as before. For every plugin whose pair of type and name is not in
  \<open>SupportedInterfaces\<close>, \<open>RegisterPlugin\<close> returns an error (unsupported interface when
  the type is not a key, no implementation otherwise) and the registry is as before.
\<close>

theorem Register_unsupported_leaves_registry:
  "(SupportedInterfaces typeKey = None \<longrightarrow>
      RegisterFactory r typeKey factory = (r, Some (NonSupportedInterface typeKey)))
   \<and> (\<not> supportedPair (Type (typedName plugin)) (Name (typedName plugin)) \<longrightarrow>
        RegisterPlugin r plugin =
          (r, Some (if SupportedInterfaces (Type (typedName plugin)) = None
                    then NonSupportedInterface (Type (typedName plugin))
                    else NoImplementation (Type (typedName plugin)))))"
  by (auto simp add: RegisterFactory_def RegisterPlugin_def supportedPair_def split: option.splits)

theorem Register_unsupported_leaves_registry_witness:
  "SupportedInterfaces ''Cache'' = None
   \<and> RegisterFactory NewPluginRegistry ''Cache'' (factoryOf (fixedExtractor ''bogus'' None))
       = (NewPluginRegistry, Some (NonSupportedInterface ''Cache''))
   \<and> \<not> supportedPair ''MetadataExtractor'' ''bogus''
   \<and> RegisterPlugin NewPluginRegistry (fixedExtractor ''bogus'' None)
       = (NewPluginRegistry, Some (NoImplementation ''MetadataExtractor''))"
  using Register_unsupported_leaves_registry
          [of "''Cache''" NewPluginRegistry "factoryOf (fixedExtractor ''bogus'' None)"
              "fixedExtractor ''bogus'' None"]
  by (simp add: supportedPair_def SupportedInterfaces_def fixedExtractor_def)

section \<open>The body-field-to-header plugin: Execute\<close>

lemma range_extract_pointwise:
  "distinct (map fst kvs) \<Longrightarrow>
   range_extract sprint kvs body acc =
     (\<lambda>headerName.
        case map_of kvs headerName of
          None \<Rightarrow> acc headerName
        | Some fieldName \<Rightarrow>
            (case lookup body fieldName of
               None \<Rightarrow> acc headerName
             | Some fieldValue \<Rightarrow>
                 Some (case fieldValue of AString str \<Rightarrow> str | ANonString x \<Rightarrow> sprint x)))"
proof (induction kvs arbitrary: acc)
  case Nil
  show ?case by simp
next
  case (Cons kv kvs)
  obtain h f where kv: "kv = (h, f)" by (cases kv)
  have d: "distinct (map fst kvs)" and fresh: "map_of kvs h = None"
    using Cons.prems by (auto simp add: kv map_of_eq_None_iff)
  show ?case
    unfolding kv
    by (cases "lookup body f")
       (auto simp add: Cons.IH [OF d] fresh fun_eq_iff split: option.splits)
qed

lemma Execute_is_loop:
  "distinct (map fst kvs) \<Longrightarrow>
   Execute sprint \<lparr>bodyFieldTypedName = tn, headerToFieldMap = Some (map_of kvs)\<rparr> headers body =
     (Some (range_extract sprint kvs body Map.empty), body, None)"
  by (simp add: range_extract_pointwise Execute_def lookup_def)

text \<open>
  Claim C10. For every incoming headers map and every body, \<open>Execute\<close> returns no
  error and the body as it was, together with an allocated headers map whose keys are
  exactly the header names of the plugin's configuration whose field is in the body;
  the result is the same whatever the incoming headers map holds.
\<close>

theorem Execute_builds_fresh_headers:
  "\<exists>updatedHeaders.
      Execute sprint p headers body = (Some updatedHeaders, body, None)
    \<and> dom updatedHeaders =
        {headerName. \<exists>fieldName. lookup (headerToFieldMap p) headerName = Some fieldName
                                  \<and> lookup body fieldName \<noteq> None}
    \<and> Execute sprint p headers body = Execute sprint p headers' body"
proof -
  define updated where "updated = (\<lambda>headerName.
     case lookup (headerToFieldMap p) headerName of
       None \<Rightarrow> None
     | Some fieldName \<Rightarrow>
         (case lookup body fieldName of
            None \<Rightarrow> None
          | Some fieldValue \<Rightarrow>
              Some (case fieldValue of AString str \<Rightarrow> str | ANonString x \<Rightarrow> sprint x)))"
  have ret: "Execute sprint p headers body = (Some updated, body, None)"
    by (simp add: Execute_def updated_def)
  have keys: "dom updated =
        {headerName. \<exists>fieldName. lookup (headerToFieldMap p) headerName = Some fieldName
                                  \<and> lookup body fieldName \<noteq> None}"
  proof (rule set_eqI)
    fix h
    show "h \<in> dom updated \<longleftrightarrow>
          h \<in> {headerName. \<exists>fieldName. lookup (headerToFieldMap p) headerName = Some fieldName
                                  \<and> lookup body fieldName \<noteq> None}"
    proof (cases "lookup (headerToFieldMap p) h")
      case None
      then show ?thesis by (simp add: updated_def dom_def)
    next
      case (Some f)
      then show ?thesis by (cases "lookup body f") (simp_all add: updated_def dom_def)
    qed
  qed
  have indep: "Execute sprint p headers body = Execute sprint p headers' body"
    by (simp add: Execute_def)
  show ?thesis using ret keys indep by blast
qed

end
